theory Spec2Isabelle
  imports Complex_Main "HOL-Library.Char_ord" "HOL-Library.List_Lexorder"
begin

section \<open>Data model\<close>

text \<open>
  The dashboard works on pandas dataframes. A dataframe is modelled as a list of column
  names together with a list of typed rows; a cell that pandas shows as NaN, None or NaT
  is \<open>None\<close>. Only the columns that the code reads are kept in a row; the other columns
  of the CSV files are carried through the joins unchanged and play no part in any
  computation. Floating-point cells are modelled by exact rationals, and day counts by
  integers.
\<close>

record 'r frame =
  columns :: "string list"
  rows :: "'r list"

text \<open>
  A cell of a date column: missing, a text that \<open>pd.to_datetime\<close> cannot parse, or a
  value (a parseable text or an already parsed timestamp) that denotes an instant, in
  nanoseconds since the epoch as in pandas' \<open>datetime64[ns]\<close>.
\<close>

datatype date_cell = NaT | Garbled string | Moment int

datatype error = FileNotFoundError string | KeyError string | ZeroDivisionError | OverflowError

text \<open>Rows of the seven source tables (the CSV files of the raw directory).\<close>

record order_row =
  o_order_id :: "string option"
  o_customer_id :: "string option"
  o_order_status :: "string option"
  o_order_purchase_timestamp :: date_cell
  o_order_delivered_customer_date :: date_cell
  o_order_estimated_delivery_date :: date_cell

record customer_row =
  c_customer_id :: "string option"
  c_customer_zip_code_prefix :: "int option"
  c_customer_state :: "string option"

record item_row =
  i_order_id :: "string option"
  i_product_id :: "string option"
  i_freight_value :: "rat option"

record payment_row =
  p_order_id :: "string option"
  p_payment_type :: "string option"
  p_payment_value :: "rat option"

record product_row =
  pr_product_id :: "string option"
  pr_product_category_name :: "string option"

record translation_row =
  t_product_category_name :: "string option"
  t_product_category_name_english :: "string option"

record geolocation_row =
  geolocation_zip_code_prefix :: "int option"
  geolocation_lat :: "rat option"
  geolocation_lng :: "rat option"

text \<open>A row of the fact table, with the column names of the source.\<close>

record fact_row =
  order_id :: "string option"
  customer_id :: "string option"
  order_status :: "string option"
  order_purchase_timestamp :: date_cell
  order_delivered_customer_date :: date_cell
  order_estimated_delivery_date :: date_cell
  customer_zip_code_prefix :: "int option"
  customer_state :: "string option"
  mean_lat :: "rat option"
  mean_lng :: "rat option"
  payment_type_mode :: "string option"
  payment_value_sum :: "rat option"
  freight_value_sum :: "rat option"
  product_category_mode :: "string option"
  delay_days :: "int option"
  on_time :: "bool option"

definition fact_columns :: "string list" where
  "fact_columns =
     [''order_id'', ''customer_id'', ''order_status'', ''order_purchase_timestamp'',
      ''order_delivered_customer_date'', ''order_estimated_delivery_date'',
      ''customer_zip_code_prefix'', ''customer_state'', ''mean_lat'', ''mean_lng'',
      ''payment_type_mode'', ''payment_value_sum'', ''freight_value_sum'',
      ''product_category_mode'', ''delay_days'', ''on_time'']"

section \<open>The pandas operations used by the code\<close>

text \<open>\<open>series.dropna()\<close>: the present values, in order.\<close>

definition dropna :: "'a option list \<Rightarrow> 'a list" where
  "dropna xs = List.map_filter id xs"

text \<open>\<open>series.sum()\<close> skips missing values; the sum of no value is 0.\<close>

definition series_sum :: "rat option list \<Rightarrow> rat" where
  "series_sum xs = sum_list (dropna xs)"

text \<open>\<open>series.mean()\<close> skips missing values; the mean of no value is missing.\<close>

definition series_mean :: "rat option list \<Rightarrow> rat option" where
  "series_mean xs =
     (let vs = dropna xs
      in if vs = [] then None else Some (sum_list vs / of_nat (length vs)))"

text \<open>\<open>series.nunique()\<close>: the number of distinct present values.\<close>

definition nunique :: "'a option list \<Rightarrow> nat" where
  "nunique xs = length (remdups (dropna xs))"

text \<open>
  \<open>series.mode()\<close>: the present values of highest frequency, each once, sorted
  ascending. Strings are compared as Python compares them, character by character.
\<close>

definition series_mode :: "('a::linorder) option list \<Rightarrow> 'a list" where
  "series_mode xs =
     (let vs = dropna xs;
          ds = remdups vs;
          best = foldr max (map (count_list vs) ds) 0
      in sort (filter (\<lambda>v. count_list vs v = best) ds))"

text \<open>
  \<open>left.merge(right, on=key, how="left")\<close>: every left row, in the order of the left
  table, once for each right row with an equal key (in the order of the right table),
  or once with the right columns missing when no right row matches. pandas matches a
  missing key with a missing key, and so does the equality of \<open>option\<close> values here.
\<close>

definition left_merge ::
  "('l \<Rightarrow> 'k) \<Rightarrow> ('r \<Rightarrow> 'k) \<Rightarrow> ('l \<Rightarrow> 'r option \<Rightarrow> 'o) \<Rightarrow> 'l list \<Rightarrow> 'r list \<Rightarrow> 'o list" where
  "left_merge lkey rkey combine ls rs =
     concat (map (\<lambda>l. case filter (\<lambda>r. rkey r = lkey l) rs of
                          [] \<Rightarrow> [combine l None]
                        | ms \<Rightarrow> map (\<lambda>r. combine l (Some r)) ms) ls)"

text \<open>
  \<open>table.groupby(key)\<close>: one group for each distinct present key, the groups sorted by
  key, each holding its rows in their original order. Rows with a missing key belong to
  no group.
\<close>

definition groupby :: "('r \<Rightarrow> ('k::linorder) option) \<Rightarrow> 'r list \<Rightarrow> ('k \<times> 'r list) list" where
  "groupby key rs =
     map (\<lambda>k. (k, filter (\<lambda>r. key r = Some k) rs)) (sort (remdups (dropna (map key rs))))"

text \<open>
  \<open>pd.Timestamp.min\<close> and \<open>pd.Timestamp.max\<close>, in nanoseconds since the epoch: a
  timestamp is a signed 64-bit count of nanoseconds, the least value being kept for NaT.
  A timedelta has the same bounds.
\<close>

definition Timestamp_min :: int where
  "Timestamp_min = - (2 ^ 63) + 1"

definition Timestamp_max :: int where
  "Timestamp_max = 2 ^ 63 - 1"

text \<open>
  \<open>pd.to_datetime(column, errors="coerce")\<close>: a value that does not parse, or that
  denotes an instant outside the range of a timestamp, becomes missing.
\<close>

fun to_datetime :: "date_cell \<Rightarrow> date_cell" where
  "to_datetime (Moment t) = (if Timestamp_min \<le> t \<and> t \<le> Timestamp_max then Moment t else NaT)"
| "to_datetime (Garbled s) = NaT"
| "to_datetime NaT = NaT"

definition ns_per_day :: int where
  "ns_per_day = 86400 * 1000000000"

text \<open>
  \<open>(a - b).dt.days\<close> for one row: the whole days of the difference, rounded towards
  minus infinity as \<open>Timedelta.days\<close> is; missing when either side is missing. The
  subtraction of datetime columns is checked: a difference that does not fit a timedelta
  raises OverflowError.
\<close>

fun days_between :: "date_cell \<Rightarrow> date_cell \<Rightarrow> error + int option" where
  "days_between (Moment a) (Moment b) =
     (if a - b < Timestamp_min \<or> Timestamp_max < a - b then Inl OverflowError
      else Inr (Some ((a - b) div ns_per_day)))"
| "days_between _ _ = Inr None"

text \<open>
  \<open>series <= 0\<close>: pandas compares a missing value with anything as False, so the
  result is a boolean for every row.
\<close>

fun le_zero :: "int option \<Rightarrow> bool" where
  "le_zero None = False"
| "le_zero (Some d) = (d \<le> 0)"

section \<open>data\_load.py\<close>

text \<open>
  The raw directory holds each of the seven required CSV files or not. The file system
  maps a directory name to its files, holds the set of existing directories, and maps
  the path of a parquet file to the table stored there.
\<close>

record raw_files =
  orders_csv :: "order_row list option"
  customers_csv :: "customer_row list option"
  order_items_csv :: "item_row list option"
  order_payments_csv :: "payment_row list option"
  products_csv :: "product_row list option"
  translation_csv :: "translation_row list option"
  geolocation_csv :: "geolocation_row list option"

record raw_data =
  orders :: "order_row list"
  customers :: "customer_row list"
  order_items :: "item_row list"
  order_payments :: "payment_row list"
  products :: "product_row list"
  product_category_translation :: "translation_row list"
  geolocation :: "geolocation_row list"

definition REQUIRED_CSVS :: "string list" where
  "REQUIRED_CSVS =
     [''olist_orders_dataset.csv'', ''olist_customers_dataset.csv'',
      ''olist_order_items_dataset.csv'', ''olist_order_payments_dataset.csv'',
      ''olist_products_dataset.csv'', ''product_category_name_translation.csv'',
      ''olist_geolocation_dataset.csv'']"

text \<open>\<open>pd.read_csv\<close> raises FileNotFoundError when the file does not exist.\<close>

definition load_csv_from_raw :: "'a list option \<Rightarrow> string \<Rightarrow> error + 'a list" where
  "load_csv_from_raw file filename =
     (case file of None \<Rightarrow> Inl (FileNotFoundError filename) | Some t \<Rightarrow> Inr t)"

definition bind_err :: "error + 'a \<Rightarrow> ('a \<Rightarrow> error + 'b) \<Rightarrow> error + 'b" where
  "bind_err m f = (case m of Inl e \<Rightarrow> Inl e | Inr x \<Rightarrow> f x)"

text \<open>The dictionary literal loads the files in the order written; the first failure ends it.\<close>

definition load_required_from_raw :: "raw_files \<Rightarrow> error + raw_data" where
  "load_required_from_raw d =
     bind_err (load_csv_from_raw (orders_csv d) ''olist_orders_dataset.csv'') (\<lambda>os.
     bind_err (load_csv_from_raw (customers_csv d) ''olist_customers_dataset.csv'') (\<lambda>cs.
     bind_err (load_csv_from_raw (order_items_csv d) ''olist_order_items_dataset.csv'') (\<lambda>its.
     bind_err (load_csv_from_raw (order_payments_csv d) ''olist_order_payments_dataset.csv'') (\<lambda>ps.
     bind_err (load_csv_from_raw (products_csv d) ''olist_products_dataset.csv'') (\<lambda>prs.
     bind_err (load_csv_from_raw (translation_csv d) ''product_category_name_translation.csv'') (\<lambda>ts.
     bind_err (load_csv_from_raw (geolocation_csv d) ''olist_geolocation_dataset.csv'') (\<lambda>gs.
       Inr \<lparr>orders = os, customers = cs, order_items = its, order_payments = ps,
            products = prs, product_category_translation = ts, geolocation = gs\<rparr>)))))))"

section \<open>transform.py\<close>

text \<open>
  The local function \<open>_mode_or_first\<close>; the lambda that aggregates the payment types
  is the same expression.
\<close>

definition mode_or_first :: "('a::linorder) option list \<Rightarrow> 'a option" where
  "mode_or_first series =
     (let mode_vals = series_mode series
      in if length mode_vals > 0 then Some (hd mode_vals) else None)"

text \<open>
  The stages of \<open>build_fact_orders\<close>, one definition for each local table of the
  source. An aggregate table after \<open>reset_index()\<close> is a list of pairs of a key and
  the aggregated cells. A column that a row does not have yet is missing in the model.
\<close>

definition geo_lookup :: "geolocation_row list \<Rightarrow> (int \<times> rat option \<times> rat option) list" where
  "geo_lookup gs =
     map (\<lambda>(k, g). (k, series_mean (map geolocation_lat g), series_mean (map geolocation_lng g)))
       (groupby geolocation_zip_code_prefix gs)"

definition orders_customers :: "order_row \<Rightarrow> customer_row option \<Rightarrow> fact_row" where
  "orders_customers ord c =
     \<lparr>order_id = o_order_id ord, customer_id = o_customer_id ord,
      order_status = o_order_status ord,
      order_purchase_timestamp = o_order_purchase_timestamp ord,
      order_delivered_customer_date = o_order_delivered_customer_date ord,
      order_estimated_delivery_date = o_order_estimated_delivery_date ord,
      customer_zip_code_prefix = (case c of None \<Rightarrow> None | Some x \<Rightarrow> c_customer_zip_code_prefix x),
      customer_state = (case c of None \<Rightarrow> None | Some x \<Rightarrow> c_customer_state x),
      mean_lat = None, mean_lng = None, payment_type_mode = None,
      payment_value_sum = None, freight_value_sum = None, product_category_mode = None,
      delay_days = None, on_time = None\<rparr>"

definition with_geo :: "fact_row \<Rightarrow> (int \<times> rat option \<times> rat option) option \<Rightarrow> fact_row" where
  "with_geo r g =
     r\<lparr>mean_lat := (case g of None \<Rightarrow> None | Some (k, lat, lng) \<Rightarrow> lat),
       mean_lng := (case g of None \<Rightarrow> None | Some (k, lat, lng) \<Rightarrow> lng)\<rparr>"

definition parse_dates :: "fact_row \<Rightarrow> fact_row" where
  "parse_dates r =
     r\<lparr>order_delivered_customer_date := to_datetime (order_delivered_customer_date r),
       order_estimated_delivery_date := to_datetime (order_estimated_delivery_date r)\<rparr>"

definition payment_mode :: "payment_row list \<Rightarrow> (string \<times> string option) list" where
  "payment_mode ps =
     map (\<lambda>(k, g). (k, mode_or_first (map p_payment_type g))) (groupby p_order_id ps)"

definition payment_total :: "payment_row list \<Rightarrow> (string \<times> rat) list" where
  "payment_total ps =
     map (\<lambda>(k, g). (k, series_sum (map p_payment_value g))) (groupby p_order_id ps)"

text \<open>
  \<open>items_with_product\<close>: an item row with the category name of its product and the
  English name of that category; the English name is then filled from the original one
  where it is missing.
\<close>

definition fill_english ::
  "item_row \<times> string option \<times> string option \<Rightarrow> item_row \<times> string option \<times> string option" where
  "fill_english x =
     (case x of (i, c, e) \<Rightarrow> (i, c, (case e of None \<Rightarrow> c | Some v \<Rightarrow> Some v)))"

definition items_with_product ::
  "item_row list \<Rightarrow> product_row list \<Rightarrow> translation_row list
     \<Rightarrow> (item_row \<times> string option \<times> string option) list" where
  "items_with_product its prs ts =
     (let m1 = left_merge i_product_id pr_product_id
                 (\<lambda>i p. (i, (case p of None \<Rightarrow> None | Some x \<Rightarrow> pr_product_category_name x)))
                 its prs;
          m2 = left_merge snd t_product_category_name
                 (\<lambda>(i, c) t. (i, c, (case t of None \<Rightarrow> None
                                       | Some x \<Rightarrow> t_product_category_name_english x)))
                 m1 ts
      in map fill_english m2)"

definition freight_agg ::
  "(item_row \<times> string option \<times> string option) list \<Rightarrow> (string \<times> rat) list" where
  "freight_agg iwp =
     map (\<lambda>(k, g). (k, series_sum (map (\<lambda>x. i_freight_value (fst x)) g)))
       (groupby (\<lambda>x. i_order_id (fst x)) iwp)"

definition category_agg ::
  "(item_row \<times> string option \<times> string option) list \<Rightarrow> (string \<times> string option) list" where
  "category_agg iwp =
     map (\<lambda>(k, g). (k, mode_or_first (map (\<lambda>x. snd (snd x)) g)))
       (groupby (\<lambda>x. i_order_id (fst x)) iwp)"

definition delivered_mask :: "fact_row \<Rightarrow> bool" where
  "delivered_mask r = (order_status r = Some ''delivered'')"

text \<open>
  Lines 110 to 116: both columns start as None; the rows of the mask get the day
  difference, and then the comparison of that column with 0. The difference is taken
  on the whole masked column, so one difference that overflows raises for the table.
\<close>

fun set_delay :: "fact_row list \<Rightarrow> error + fact_row list" where
  "set_delay [] = Inr []"
| "set_delay (r # rs) =
     (if delivered_mask r
      then bind_err (days_between (order_delivered_customer_date r)
                       (order_estimated_delivery_date r))
             (\<lambda>d. bind_err (set_delay rs) (\<lambda>rs'. Inr (r\<lparr>delay_days := d\<rparr> # rs')))
      else bind_err (set_delay rs) (\<lambda>rs'. Inr (r # rs')))"

definition set_on_time :: "fact_row \<Rightarrow> fact_row" where
  "set_on_time r =
     (if delivered_mask r then r\<lparr>on_time := Some (le_zero (delay_days r))\<rparr> else r)"

definition fact_table :: "raw_data \<Rightarrow> error + fact_row list" where
  "fact_table data =
     (let df1 = left_merge o_customer_id c_customer_id orders_customers
                  (orders data) (customers data);
          df2 = left_merge customer_zip_code_prefix (\<lambda>g. Some (fst g)) with_geo
                  df1 (geo_lookup (geolocation data));
          df3 = map parse_dates df2;
          df4 = left_merge order_id (\<lambda>a. Some (fst a))
                  (\<lambda>r a. r\<lparr>payment_type_mode := (case a of None \<Rightarrow> None | Some (k, v) \<Rightarrow> v)\<rparr>)
                  df3 (payment_mode (order_payments data));
          df5 = left_merge order_id (\<lambda>a. Some (fst a))
                  (\<lambda>r a. r\<lparr>payment_value_sum := (case a of None \<Rightarrow> None | Some (k, v) \<Rightarrow> Some v)\<rparr>)
                  df4 (payment_total (order_payments data));
          iwp = items_with_product (order_items data) (products data)
                  (product_category_translation data);
          df6 = left_merge order_id (\<lambda>a. Some (fst a))
                  (\<lambda>r a. r\<lparr>freight_value_sum := (case a of None \<Rightarrow> None | Some (k, v) \<Rightarrow> Some v)\<rparr>)
                  df5 (freight_agg iwp);
          df7 = left_merge order_id (\<lambda>a. Some (fst a))
                  (\<lambda>r a. r\<lparr>product_category_mode := (case a of None \<Rightarrow> None | Some (k, v) \<Rightarrow> v)\<rparr>)
                  df6 (category_agg iwp);
          df8 = map (\<lambda>r. r\<lparr>delay_days := None, on_time := None\<rparr>) df7
      in bind_err (set_delay df8) (\<lambda>df9. Inr (map set_on_time df9)))"

definition build_fact_orders :: "raw_files \<Rightarrow> error + fact_row frame" where
  "build_fact_orders raw_dir =
     bind_err (load_required_from_raw raw_dir) (\<lambda>data.
     bind_err (fact_table data) (\<lambda>df. Inr \<lparr>columns = fact_columns, rows = df\<rparr>))"

text \<open>
  \<open>get_fact_orders\<close>: the file system is passed in and returned. The parquet file
  stores the table by value.
\<close>

record filesystem =
  raw :: "string \<Rightarrow> raw_files"
  dirs :: "string set"
  parquet :: "string \<rightharpoonup> fact_row frame"

definition get_fact_orders ::
  "string \<Rightarrow> string \<Rightarrow> bool \<Rightarrow> filesystem \<Rightarrow> (error + fact_row frame) \<times> filesystem" where
  "get_fact_orders raw_dir processed_dir use_cache_file fs =
     (let parquet_path = processed_dir @ ''/fact_orders.parquet''
      in if use_cache_file \<and> parquet_path \<in> dom (parquet fs)
         then (case parquet fs parquet_path of
                 Some t \<Rightarrow> (Inr t, fs)
               | None \<Rightarrow> (Inl (FileNotFoundError parquet_path), fs))
         else (case build_fact_orders (raw fs raw_dir) of
                 Inl e \<Rightarrow> (Inl e, fs)
               | Inr df \<Rightarrow>
                   (Inr df, fs\<lparr>dirs := insert processed_dir (dirs fs),
                                parquet := (parquet fs)(parquet_path \<mapsto> df)\<rparr>)))"

section \<open>metrics.py\<close>

text \<open>\<open>pd.DataFrame()\<close> has no column and no row; \<open>df.empty\<close> holds when either is missing.\<close>

definition empty_frame :: "'r frame" where
  "empty_frame = \<lparr>columns = [], rows = []\<rparr>"

definition frame_empty :: "'r frame \<Rightarrow> bool" where
  "frame_empty d = (columns d = [] \<or> rows d = [])"

text \<open>Reading a column that the frame does not have raises KeyError.\<close>

definition require :: "string \<Rightarrow> 'r frame \<Rightarrow> error + unit" where
  "require col d = (if col \<in> set (columns d) then Inr () else Inl (KeyError col))"

text \<open>\<open>result[mask]\<close> for a mask computed from the column \<open>col\<close>.\<close>

definition select_rows :: "string \<Rightarrow> ('r \<Rightarrow> bool) \<Rightarrow> 'r frame \<Rightarrow> error + 'r frame" where
  "select_rows col keep d =
     bind_err (require col d) (\<lambda>_. Inr (d\<lparr>rows := filter keep (rows d)\<rparr>))"

fun fillna_ts :: "int \<Rightarrow> date_cell \<Rightarrow> int" where
  "fillna_ts v (Moment t) = t"
| "fillna_ts v _ = v"

definition isin :: "'a option \<Rightarrow> 'a list \<Rightarrow> bool" where
  "isin x vs = (case x of None \<Rightarrow> False | Some v \<Rightarrow> v \<in> set vs)"

definition parse_purchase :: "fact_row \<Rightarrow> fact_row" where
  "parse_purchase r = r\<lparr>order_purchase_timestamp := to_datetime (order_purchase_timestamp r)\<rparr>"

definition date_range_filter ::
  "(int option \<times> int option) option \<Rightarrow> fact_row frame \<Rightarrow> error + fact_row frame" where
  "date_range_filter date_range result =
     (case date_range of
        None \<Rightarrow> Inr result
      | Some (start_dt, end_dt) \<Rightarrow>
          bind_err
            (case start_dt of
               None \<Rightarrow> Inr result
             | Some s \<Rightarrow>
                 select_rows ''order_purchase_timestamp''
                   (\<lambda>r. fillna_ts Timestamp_min (order_purchase_timestamp r) \<ge> s) result)
            (\<lambda>result.
               case end_dt of
                 None \<Rightarrow> Inr result
               | Some e \<Rightarrow>
                   select_rows ''order_purchase_timestamp''
                     (\<lambda>r. fillna_ts Timestamp_max (order_purchase_timestamp r) \<le> e) result))"

definition isin_filter ::
  "string \<Rightarrow> (fact_row \<Rightarrow> string option) \<Rightarrow> string list option \<Rightarrow> fact_row frame
     \<Rightarrow> error + fact_row frame" where
  "isin_filter col cell allowed result =
     (case allowed of
        None \<Rightarrow> Inr result
      | Some vs \<Rightarrow>
          if length vs > 0 then select_rows col (\<lambda>r. isin (cell r) vs) result
          else Inr result)"

definition apply_filters ::
  "fact_row frame option \<Rightarrow> (int option \<times> int option) option \<Rightarrow> string list option
     \<Rightarrow> string list option \<Rightarrow> string list option \<Rightarrow> bool \<Rightarrow> error + fact_row frame" where
  "apply_filters df date_range states categories payment_types delivered_only =
     (case df of
        None \<Rightarrow> Inr empty_frame
      | Some d \<Rightarrow>
          if frame_empty d then Inr empty_frame
          else
            let result =
                  (if ''order_purchase_timestamp'' \<in> set (columns d)
                   then d\<lparr>rows := map parse_purchase (rows d)\<rparr> else d)
            in bind_err (date_range_filter date_range result) (\<lambda>result.
               bind_err (isin_filter ''customer_state'' customer_state states result) (\<lambda>result.
               bind_err (isin_filter ''product_category_mode'' product_category_mode categories result) (\<lambda>result.
               bind_err (isin_filter ''payment_type_mode'' payment_type_mode payment_types result) (\<lambda>result.
               if delivered_only then select_rows ''order_status'' delivered_mask result
               else Inr result)))))"

record kpis =
  total_orders :: nat
  delivered_orders :: nat
  on_time_count :: nat
  on_time_rate :: rat
  avg_delay_days :: rat
  total_payment_value :: rat
  total_freight_value :: rat

definition defaults :: kpis where
  "defaults = \<lparr>total_orders = 0, delivered_orders = 0, on_time_count = 0, on_time_rate = 0,
                avg_delay_days = 0, total_payment_value = 0, total_freight_value = 0\<rparr>"

text \<open>The block guarded by \<open>delivered_orders > 0\<close>: count, rate and mean delay.\<close>

text \<open>Python's \<open>a / b\<close> on integers raises ZeroDivisionError when \<open>b\<close> is 0.\<close>

definition py_div :: "nat \<Rightarrow> nat \<Rightarrow> error + rat" where
  "py_div a b = (if b = 0 then Inl ZeroDivisionError else Inr (of_nat a / of_nat b))"

definition delivered_stats :: "fact_row frame \<Rightarrow> fact_row list \<Rightarrow> error + nat \<times> rat \<times> rat" where
  "delivered_stats d delivered =
     (let delivered_orders = length delivered
      in if delivered_orders > 0
         then bind_err (require ''on_time'' d) (\<lambda>_.
              let on_time_valid = dropna (map on_time delivered);
                  cnt = length (filter (\<lambda>b. b = True) on_time_valid)
              in bind_err (py_div cnt delivered_orders) (\<lambda>rate.
                 bind_err (require ''delay_days'' d) (\<lambda>_.
                 let delay_valid = dropna (map delay_days delivered);
                     avg = (if length delay_valid > 0
                            then of_int (sum_list delay_valid) / of_nat (length delay_valid)
                            else 0)
                 in Inr (cnt, rate, avg))))
         else Inr (0, 0, 0))"

definition column_total :: "string \<Rightarrow> (fact_row \<Rightarrow> rat option) \<Rightarrow> fact_row frame \<Rightarrow> rat" where
  "column_total col cell d =
     (if col \<in> set (columns d)
      then sum_list (map (\<lambda>r. case cell r of None \<Rightarrow> 0 | Some v \<Rightarrow> v) (rows d))
      else 0)"

definition compute_kpis :: "fact_row frame option \<Rightarrow> error + kpis" where
  "compute_kpis df =
     (case df of
        None \<Rightarrow> Inr defaults
      | Some d \<Rightarrow>
          if frame_empty d then Inr defaults
          else
            bind_err (require ''order_status'' d) (\<lambda>_.
            let delivered = filter delivered_mask (rows d)
            in bind_err (delivered_stats d delivered) (\<lambda>(cnt, rate, avg).
               Inr \<lparr>total_orders = length (rows d), delivered_orders = length delivered,
                    on_time_count = cnt, on_time_rate = rate, avg_delay_days = avg,
                    total_payment_value = column_total ''payment_value_sum'' payment_value_sum d,
                    total_freight_value = column_total ''freight_value_sum'' freight_value_sum d\<rparr>)))"

text \<open>A row of the geographic rollup.\<close>

record geo_row =
  geo_customer_state :: string
  geo_mean_lat :: "rat option"
  geo_mean_lng :: "rat option"
  geo_order_count :: nat
  geo_delivered_count :: nat
  geo_on_time_count :: nat
  geo_on_time_rate :: rat
  geo_avg_delay_days :: rat

definition geo_cols :: "string list" where
  "geo_cols = [''customer_state'', ''mean_lat'', ''mean_lng'']"

text \<open>The column list written out at lines 124 to 135 and again at lines 145 to 156.\<close>

definition empty_geo_columns :: "string list" where
  "empty_geo_columns =
     [''customer_state'', ''mean_lat'', ''mean_lng'', ''order_count'', ''delivered_count'',
      ''on_time_count'', ''on_time_rate'', ''avg_delay_days'']"

text \<open>The columns of the aggregated result, in the order in which the code adds them.\<close>

definition agg_columns :: "string list" where
  "agg_columns =
     [''customer_state'', ''mean_lat'', ''mean_lng'', ''order_count'', ''delivered_count'',
      ''on_time_count'', ''avg_delay_days'', ''on_time_rate'']"

text \<open>
  The aggregate of the delivered rows for each state: distinct orders, the number of
  rows whose \<open>on_time\<close> is True (missing values are filled with False before the sum),
  and the mean of the present delays.
\<close>

definition delivered_agg :: "fact_row list \<Rightarrow> (string \<times> nat \<times> nat \<times> rat option) list" where
  "delivered_agg delivered =
     map (\<lambda>(s, g). (s, nunique (map order_id g),
                      length (filter (\<lambda>r. on_time r = Some True) g),
                      series_mean (map (\<lambda>r. map_option of_int (delay_days r)) g)))
       (groupby customer_state delivered)"

text \<open>
  Lines 187 to 192: the rate divides by the delivered count with 0 replaced by a missing
  value, and every missing result is then filled with 0.
\<close>

definition finish_geo ::
  "(string \<times> rat option \<times> rat option \<times> nat) \<Rightarrow> (nat option \<times> nat option \<times> rat option) \<Rightarrow> geo_row" where
  "finish_geo a m =
     (case a of (s, lat, lng, cnt) \<Rightarrow>
      case m of (dc, oc, avg) \<Rightarrow>
        \<lparr>geo_customer_state = s, geo_mean_lat = lat, geo_mean_lng = lng,
         geo_order_count = cnt,
         geo_delivered_count = (case dc of None \<Rightarrow> 0 | Some n \<Rightarrow> n),
         geo_on_time_count = (case oc of None \<Rightarrow> 0 | Some n \<Rightarrow> n),
         geo_on_time_rate =
           (case (oc, dc) of
              (Some c, Some n) \<Rightarrow> if n = 0 then 0 else of_nat c / of_nat n
            | _ \<Rightarrow> 0),
         geo_avg_delay_days = (case avg of None \<Rightarrow> 0 | Some v \<Rightarrow> v)\<rparr>)"

definition group_geo :: "fact_row frame option \<Rightarrow> error + geo_row frame" where
  "group_geo df =
     (case df of
        None \<Rightarrow> Inr \<lparr>columns = empty_geo_columns, rows = []\<rparr>
      | Some d \<Rightarrow>
          if frame_empty d then Inr \<lparr>columns = empty_geo_columns, rows = []\<rparr>
          else if list_ex (\<lambda>col. col \<notin> set (columns d)) geo_cols
          then Inr \<lparr>columns = geo_cols @ [''order_count''], rows = []\<rparr>
          else
            let geo_clean = filter (\<lambda>r. mean_lat r \<noteq> None \<and> mean_lng r \<noteq> None) (rows d)
            in if geo_clean = [] then Inr \<lparr>columns = empty_geo_columns, rows = []\<rparr>
               else
                 bind_err (require ''order_id'' d) (\<lambda>_.
                 let agg = map (\<lambda>(s, g). (s, series_mean (map mean_lat g),
                                             series_mean (map mean_lng g),
                                             nunique (map order_id g)))
                             (groupby customer_state geo_clean)
                 in bind_err (require ''order_status'' d) (\<lambda>_.
                    let delivered = filter delivered_mask geo_clean
                    in if delivered \<noteq> []
                       then bind_err (require ''on_time'' d) (\<lambda>_.
                            bind_err (require ''delay_days'' d) (\<lambda>_.
                            Inr \<lparr>columns = agg_columns,
                                 rows = left_merge (\<lambda>a. Some (fst a)) (\<lambda>b. Some (fst b))
                                          (\<lambda>a b. finish_geo a
                                             (case b of
                                                None \<Rightarrow> (None, None, None)
                                              | Some (s, dc, oc, avg) \<Rightarrow> (Some dc, Some oc, avg)))
                                          agg (delivered_agg delivered)\<rparr>))
                       else Inr \<lparr>columns = agg_columns,
                                 rows = map (\<lambda>a. finish_geo a (Some 0, Some 0, Some 0)) agg\<rparr>)))"

section \<open>Definitions used in the statements\<close>

text \<open>
  What the stages after the first join do to one row when the table is returned: every
  later join looks the row's key up in a table with one row for each key, and the day
  difference is the one that did not overflow.
\<close>

definition whole_days :: "date_cell \<Rightarrow> date_cell \<Rightarrow> int option" where
  "whole_days a b = (case days_between a b of Inl e \<Rightarrow> None | Inr d \<Rightarrow> d)"

definition row_delay :: "fact_row \<Rightarrow> fact_row" where
  "row_delay r =
     (if delivered_mask r
      then r\<lparr>delay_days := whole_days (order_delivered_customer_date r)
                               (order_estimated_delivery_date r)\<rparr>
      else r)"

definition enrich :: "raw_data \<Rightarrow> fact_row \<Rightarrow> fact_row" where
  "enrich data r =
     (let iwp = items_with_product (order_items data) (products data)
                  (product_category_translation data);
          k = order_id r;
          r3 = parse_dates (with_geo r (find (\<lambda>g. Some (fst g) = customer_zip_code_prefix r)
                                          (geo_lookup (geolocation data))));
          r7 = r3\<lparr>payment_type_mode :=
                    (case find (\<lambda>a. Some (fst a) = k) (payment_mode (order_payments data)) of
                       None \<Rightarrow> None | Some (k, v) \<Rightarrow> v),
                  payment_value_sum :=
                    (case find (\<lambda>a. Some (fst a) = k) (payment_total (order_payments data)) of
                       None \<Rightarrow> None | Some (k, v) \<Rightarrow> Some v),
                  freight_value_sum :=
                    (case find (\<lambda>a. Some (fst a) = k) (freight_agg iwp) of
                       None \<Rightarrow> None | Some (k, v) \<Rightarrow> Some v),
                  product_category_mode :=
                    (case find (\<lambda>a. Some (fst a) = k) (category_agg iwp) of
                       None \<Rightarrow> None | Some (k, v) \<Rightarrow> v)\<rparr>
      in set_on_time (row_delay (r7\<lparr>delay_days := None, on_time := None\<rparr>)))"

text \<open>
  The rows for which the subtraction raises: delivered, with both dates parsed and a
  difference that does not fit a timedelta. The first is on the rows of the first
  join, the second on the rows of the orders table.
\<close>

definition overflows :: "fact_row \<Rightarrow> bool" where
  "overflows r =
     (delivered_mask r \<and>
      days_between (to_datetime (order_delivered_customer_date r))
        (to_datetime (order_estimated_delivery_date r)) = Inl OverflowError)"


text \<open>Concrete inputs: one order of customer \<open>c1\<close>, and a raw directory with all files.\<close>

definition day :: "int \<Rightarrow> date_cell" where
  "day n = Moment (n * ns_per_day)"

definition one_order :: "string \<Rightarrow> date_cell \<Rightarrow> date_cell \<Rightarrow> order_row list" where
  "one_order status delivered estimated =
     [\<lparr>o_order_id = Some ''o1'', o_customer_id = Some ''c1'', o_order_status = Some status,
       o_order_purchase_timestamp = day 19723,
       o_order_delivered_customer_date = delivered,
       o_order_estimated_delivery_date = estimated\<rparr>]"

definition raw_of :: "order_row list \<Rightarrow> customer_row list \<Rightarrow> raw_files" where
  "raw_of os cs =
     \<lparr>orders_csv = Some os, customers_csv = Some cs, order_items_csv = Some [],
      order_payments_csv = Some [], products_csv = Some [], translation_csv = Some [],
      geolocation_csv = Some []\<rparr>"

text \<open>The fact row of that order when no other table has a matching row.\<close>

definition bare_row ::
  "string \<Rightarrow> date_cell \<Rightarrow> date_cell \<Rightarrow> int option \<Rightarrow> bool option \<Rightarrow> fact_row" where
  "bare_row status delivered estimated delay ot =
     \<lparr>order_id = Some ''o1'', customer_id = Some ''c1'', order_status = Some status,
      order_purchase_timestamp = day 19723,
      order_delivered_customer_date = delivered,
      order_estimated_delivery_date = estimated,
      customer_zip_code_prefix = None, customer_state = None, mean_lat = None,
      mean_lng = None, payment_type_mode = None, payment_value_sum = None,
      freight_value_sum = None, product_category_mode = None, delay_days = delay,
      on_time = ot\<rparr>"

text \<open>A file system with no cache artifact, whose raw directory holds one delivered order.\<close>

definition fresh_fs :: filesystem where
  "fresh_fs =
     \<lparr>raw = (\<lambda>_. raw_of (one_order ''delivered'' (day 19730) (day 19732)) []),
      dirs = {}, parquet = Map.empty\<rparr>"

text \<open>The on-time rate as C4 words it: true values over present values among delivered rows.\<close>

definition rate_excluding_nulls :: "fact_row list \<Rightarrow> rat" where
  "rate_excluding_nulls rs =
     (let valid = dropna (map on_time (filter delivered_mask rs))
      in if valid = [] then 0
         else of_nat (length (filter (\<lambda>b. b) valid)) / of_nat (length valid))"

text \<open>Two delivered orders, the second with \<open>on_time\<close> missing.\<close>

definition two_delivered :: "fact_row frame" where
  "two_delivered =
     \<lparr>columns = fact_columns,
      rows = [bare_row ''delivered'' (day 19730) (day 19732) (Some (- 2)) (Some True),
              bare_row ''delivered'' (day 19730) (day 19732) (Some (- 2)) None]\<rparr>"

text \<open>A frame with one row and without the coordinate columns.\<close>

definition no_coordinates :: "fact_row frame" where
  "no_coordinates =
     \<lparr>columns = [''order_id'', ''customer_state'', ''order_status''],
      rows = [bare_row ''delivered'' (day 19730) (day 19732) (Some (- 2)) (Some True)]\<rparr>"

text \<open>
  The arguments of \<open>apply_filters\<close> other than the frame, and what makes one set of
  arguments at least as strict as another: every filter that is active in the first
  is in the second with the same value.
\<close>

definition start_of :: "(int option \<times> int option) option \<Rightarrow> int option" where
  "start_of date_range = (case date_range of None \<Rightarrow> None | Some (s, e) \<Rightarrow> s)"

definition end_of :: "(int option \<times> int option) option \<Rightarrow> int option" where
  "end_of date_range = (case date_range of None \<Rightarrow> None | Some (s, e) \<Rightarrow> e)"

definition active :: "string list option \<Rightarrow> string list" where
  "active allowed = (case allowed of None \<Rightarrow> [] | Some vs \<Rightarrow> vs)"

record filter_args =
  arg_date_range :: "(int option \<times> int option) option"
  arg_states :: "string list option"
  arg_categories :: "string list option"
  arg_payment_types :: "string list option"
  arg_delivered_only :: bool

definition run_filters :: "fact_row frame option \<Rightarrow> filter_args \<Rightarrow> error + fact_row frame" where
  "run_filters df a =
     apply_filters df (arg_date_range a) (arg_states a) (arg_categories a)
       (arg_payment_types a) (arg_delivered_only a)"

definition adds_filters :: "filter_args \<Rightarrow> filter_args \<Rightarrow> bool" where
  "adds_filters a b =
     ((start_of (arg_date_range a) = None \<or>
         start_of (arg_date_range b) = start_of (arg_date_range a)) \<and>
      (end_of (arg_date_range a) = None \<or>
         end_of (arg_date_range b) = end_of (arg_date_range a)) \<and>
      (active (arg_states a) = [] \<or> active (arg_states b) = active (arg_states a)) \<and>
      (active (arg_categories a) = [] \<or>
         active (arg_categories b) = active (arg_categories a)) \<and>
      (active (arg_payment_types a) = [] \<or>
         active (arg_payment_types b) = active (arg_payment_types a)) \<and>
      (arg_delivered_only a \<longrightarrow> arg_delivered_only b))"

text \<open>The rows that a set of arguments keeps, and the columns it reads.\<close>

definition passes :: "filter_args \<Rightarrow> fact_row \<Rightarrow> bool" where
  "passes a r =
     ((case start_of (arg_date_range a) of
         None \<Rightarrow> True
       | Some s \<Rightarrow> s \<le> fillna_ts Timestamp_min (order_purchase_timestamp r)) \<and>
      (case end_of (arg_date_range a) of
         None \<Rightarrow> True
       | Some e \<Rightarrow> fillna_ts Timestamp_max (order_purchase_timestamp r) \<le> e) \<and>
      (active (arg_states a) = [] \<or> isin (customer_state r) (active (arg_states a))) \<and>
      (active (arg_categories a) = [] \<or>
         isin (product_category_mode r) (active (arg_categories a))) \<and>
      (active (arg_payment_types a) = [] \<or>
         isin (payment_type_mode r) (active (arg_payment_types a))) \<and>
      (arg_delivered_only a \<longrightarrow> delivered_mask r))"

definition reads :: "filter_args \<Rightarrow> string list" where
  "reads a =
     (if start_of (arg_date_range a) = None \<and> end_of (arg_date_range a) = None then []
      else [''order_purchase_timestamp'']) @
     (if active (arg_states a) = [] then [] else [''customer_state'']) @
     (if active (arg_categories a) = [] then [] else [''product_category_mode'']) @
     (if active (arg_payment_types a) = [] then [] else [''payment_type_mode'']) @
     (if arg_delivered_only a then [''order_status''] else [])"

definition parsed :: "fact_row frame \<Rightarrow> fact_row frame" where
  "parsed d =
     (if ''order_purchase_timestamp'' \<in> set (columns d)
      then d\<lparr>rows := map parse_purchase (rows d)\<rparr> else d)"

text \<open>
  Arguments with no active filter: no date bound, no non-empty list of states, categories
  or payment types, and the delivered-only flag off. A missing list and an empty list,
  a missing date range and a range without bounds, are all inactive.
\<close>

definition inactive :: "filter_args \<Rightarrow> bool" where
  "inactive a =
     (start_of (arg_date_range a) = None \<and> end_of (arg_date_range a) = None \<and>
      active (arg_states a) = [] \<and> active (arg_categories a) = [] \<and>
      active (arg_payment_types a) = [] \<and> \<not> arg_delivered_only a)"

text \<open>Concrete frames and arguments for the filter.\<close>

definition mixed_orders :: "fact_row frame" where
  "mixed_orders =
     \<lparr>columns = fact_columns,
      rows = [bare_row ''delivered'' (day 19730) (day 19732) (Some (- 2)) (Some True),
              bare_row ''shipped'' NaT (day 19732) None None]\<rparr>"

definition garbled_purchase :: "fact_row frame" where
  "garbled_purchase =
     \<lparr>columns = fact_columns,
      rows = [(bare_row ''shipped'' NaT (day 19732) None None)
                \<lparr>order_purchase_timestamp := Garbled ''n/a''\<rparr>]\<rparr>"

definition no_filters :: filter_args where
  "no_filters =
     \<lparr>arg_date_range = None, arg_states = None, arg_categories = None,
      arg_payment_types = None, arg_delivered_only = False\<rparr>"

definition empty_filters :: filter_args where
  "empty_filters =
     \<lparr>arg_date_range = Some (None, None), arg_states = Some [], arg_categories = Some [],
      arg_payment_types = Some [], arg_delivered_only = False\<rparr>"




text \<open>
  The value that C10 names: a most frequent value of the list that is least among the
  most frequent ones.
\<close>

definition first_sorted_mode :: "('a::linorder) list \<Rightarrow> 'a \<Rightarrow> bool" where
  "first_sorted_mode vs v \<longleftrightarrow>
     v \<in> set vs \<and>
     (\<forall>w \<in> set vs. count_list vs w \<le> count_list vs v) \<and>
     (\<forall>w \<in> set vs. count_list vs w = count_list vs v \<longrightarrow> v \<le> w)"
















section \<open>Joins and aggregates\<close>

lemma filter_unique_key:
  "distinct (map f xs) \<Longrightarrow>
     filter (\<lambda>x. f x = k) xs = (case find (\<lambda>x. f x = k) xs of None \<Rightarrow> [] | Some x \<Rightarrow> [x])"
proof (induction xs)
  case Nil
  then show ?case by simp
next
  case (Cons a xs)
  show ?case
  proof (cases "f a = k")
    case True
    with Cons.prems have "k \<notin> f ` set xs" by simp
    then have "\<forall>x\<in>set xs. f x \<noteq> k" by blast
    then have "filter (\<lambda>x. f x = k) xs = []" by (simp add: filter_empty_conv)
    with True show ?thesis by simp
  next
    case False
    with Cons show ?thesis by simp
  qed
qed

lemma left_merge_unique:
  assumes "distinct (map rkey rs)"
  shows "left_merge lkey rkey comb ls rs = map (\<lambda>l. comb l (find (\<lambda>r. rkey r = lkey l) rs)) ls"
proof -
  have "(case filter (\<lambda>r. rkey r = lkey l) rs of [] \<Rightarrow> [comb l None]
         | ms \<Rightarrow> map (\<lambda>r. comb l (Some r)) ms) = [comb l (find (\<lambda>r. rkey r = lkey l) rs)]" for l
    using filter_unique_key [OF assms, of "lkey l"]
    by (simp split: option.splits)
  then show ?thesis
    unfolding left_merge_def by (induction ls) simp_all
qed


lemma dropna_simps [simp]:
  "dropna [] = []"
  "dropna (None # xs) = dropna xs"
  "dropna (Some v # xs) = v # dropna xs"
  by (simp_all add: dropna_def)

lemma groupby_keys: "map fst (groupby key rs) = sort (remdups (dropna (map key rs)))"
  by (simp add: groupby_def comp_def)

lemma agg_keys_distinct:
  "distinct (map (\<lambda>a. Some (fst a)) (map (\<lambda>(k, g). (k, f k g)) (groupby key rs)))"
proof -
  have "map (\<lambda>a. Some (fst a)) (map (\<lambda>(k, g). (k, f k g)) (groupby key rs))
        = map Some (map fst (groupby key rs))"
    by (simp add: comp_def case_prod_beta)
  then show ?thesis
    by (simp add: groupby_keys distinct_map)
qed




lemma order_id_with_geo [simp]: "order_id (with_geo r g) = order_id r"
  by (simp add: with_geo_def)

lemma order_id_parse_dates [simp]: "order_id (parse_dates r) = order_id r"
  by (simp add: parse_dates_def)

lemma days_between_Inl: "days_between x y = Inl e \<Longrightarrow> e = OverflowError"
  by (cases x; cases y) (auto split: if_splits)

lemma set_delay_eq:
  "set_delay rs =
     (if list_ex (\<lambda>r. delivered_mask r \<and>
                      days_between (order_delivered_customer_date r)
                        (order_estimated_delivery_date r) = Inl OverflowError) rs
      then Inl OverflowError else Inr (map row_delay rs))"
proof (induction rs)
  case Nil
  show ?case by simp
next
  case (Cons r rs)
  show ?case
  proof (cases "days_between (order_delivered_customer_date r) (order_estimated_delivery_date r)")
    case (Inl e)
    with days_between_Inl have "e = OverflowError" by blast
    with Inl Cons show ?thesis
      by (simp add: bind_err_def row_delay_def whole_days_def)
  next
    case (Inr d)
    with Cons show ?thesis
      by (simp add: bind_err_def row_delay_def whole_days_def)
  qed
qed

lemma fact_table_enrich:
  "fact_table data =
     (if list_ex overflows
           (left_merge o_customer_id c_customer_id orders_customers (orders data) (customers data))
      then Inl OverflowError
      else Inr (map (enrich data)
             (left_merge o_customer_id c_customer_id orders_customers (orders data)
                (customers data))))"
  unfolding fact_table_def Let_def geo_lookup_def payment_mode_def payment_total_def
    freight_agg_def category_agg_def
  apply (subst left_merge_unique, rule agg_keys_distinct)+
  apply (simp add: set_delay_eq bind_err_def list_ex_iff comp_def enrich_def Let_def
    geo_lookup_def payment_mode_def payment_total_def freight_agg_def category_agg_def
    overflows_def delivered_mask_def parse_dates_def with_geo_def)
  done

lemma whole_days_Some_iff:
  "days_between d e \<noteq> Inl OverflowError \<Longrightarrow>
     whole_days d e \<noteq> None \<longleftrightarrow> (\<exists>a b. d = Moment a \<and> e = Moment b)"
  by (cases d; cases e) (simp_all add: whole_days_def split: if_splits)

lemma enrich_status [simp]: "order_status (enrich data r) = order_status r"
  by (simp add: enrich_def Let_def set_on_time_def row_delay_def delivered_mask_def
      parse_dates_def with_geo_def)

lemma enrich_dates [simp]:
  "order_delivered_customer_date (enrich data r) = to_datetime (order_delivered_customer_date r)"
  "order_estimated_delivery_date (enrich data r) = to_datetime (order_estimated_delivery_date r)"
  by (simp_all add: enrich_def Let_def set_on_time_def row_delay_def delivered_mask_def
      parse_dates_def with_geo_def)

lemma enrich_delay_days:
  "delay_days (enrich data r) =
     (if order_status r = Some ''delivered''
      then whole_days (to_datetime (order_delivered_customer_date r))
             (to_datetime (order_estimated_delivery_date r))
      else None)"
  by (simp add: enrich_def Let_def set_on_time_def row_delay_def delivered_mask_def
      parse_dates_def with_geo_def)

lemma enrich_on_time:
  "on_time (enrich data r) =
     (if order_status r = Some ''delivered''
      then Some (le_zero (delay_days (enrich data r))) else None)"
  by (simp add: enrich_def Let_def set_on_time_def row_delay_def delivered_mask_def
      parse_dates_def with_geo_def)

lemma build_table:
  "build_fact_orders raw_dir = Inr df \<longleftrightarrow>
     (\<exists>data. load_required_from_raw raw_dir = Inr data \<and>
        \<not> list_ex overflows
            (left_merge o_customer_id c_customer_id orders_customers (orders data)
               (customers data)) \<and>
        df = \<lparr>columns = fact_columns,
              rows = map (enrich data)
                (left_merge o_customer_id c_customer_id orders_customers (orders data)
                   (customers data))\<rparr>)"
  by (cases "load_required_from_raw raw_dir")
     (auto simp: build_fact_orders_def bind_err_def fact_table_enrich)

lemma build_rows:
  assumes "build_fact_orders raw_dir = Inr df" and "r \<in> set (rows df)"
  obtains data r0 where "load_required_from_raw raw_dir = Inr data"
    and "r = enrich data r0"
    and "r0 \<in> set (left_merge o_customer_id c_customer_id orders_customers
                     (orders data) (customers data))"
    and "\<not> overflows r0"
proof -
  from assms(1) obtain data where d: "load_required_from_raw raw_dir = Inr data"
    and n: "\<not> list_ex overflows
            (left_merge o_customer_id c_customer_id orders_customers (orders data)
               (customers data))"
    and df: "rows df = map (enrich data)
                (left_merge o_customer_id c_customer_id orders_customers (orders data)
                   (customers data))"
    unfolding build_table by auto
  from assms(2) df obtain r0 where "r = enrich data r0"
    and r0: "r0 \<in> set (left_merge o_customer_id c_customer_id orders_customers
                     (orders data) (customers data))"
    by auto
  moreover from n r0 have "\<not> overflows r0" by (auto simp: list_ex_iff)
  ultimately show ?thesis using d that by blast
qed

section \<open>The derived columns\<close>

text \<open>
  C2, as the code has it. In every row of the fact table, \<open>on_time\<close> is present exactly
  when the order status is "delivered"; \<open>delay_days\<close> is present exactly when the
  status is "delivered" and both the delivered and the estimated date are present after
  parsing; a row of any other status has both columns missing, whatever its dates.
\<close>

theorem delay_and_on_time_by_status:
  assumes "build_fact_orders raw_dir = Inr df" and "r \<in> set (rows df)"
  shows "(on_time r \<noteq> None \<longleftrightarrow> order_status r = Some ''delivered'') \<and>
         (delay_days r \<noteq> None \<longleftrightarrow>
            order_status r = Some ''delivered'' \<and>
            (\<exists>a b. order_delivered_customer_date r = Moment a \<and>
                   order_estimated_delivery_date r = Moment b)) \<and>
         (order_status r \<noteq> Some ''delivered'' \<longrightarrow> delay_days r = None \<and> on_time r = None)"
proof -
  from assms obtain data r0 where r: "r = enrich data r0" and n: "\<not> overflows r0"
    by (rule build_rows)
  show ?thesis
  proof (cases "order_status r0 = Some ''delivered''")
    case True
    with n have "days_between (to_datetime (order_delivered_customer_date r0))
                   (to_datetime (order_estimated_delivery_date r0)) \<noteq> Inl OverflowError"
      by (simp add: overflows_def delivered_mask_def)
    from whole_days_Some_iff [OF this] True show ?thesis
      unfolding r enrich_delay_days enrich_on_time enrich_status enrich_dates by simp
  next
    case False
    then show ?thesis
      unfolding r enrich_delay_days enrich_on_time enrich_status enrich_dates by simp
  qed
qed

theorem delay_and_on_time_by_status_witness:
  "build_fact_orders (raw_of (one_order ''delivered'' (day 19730) (day 19732)) []) =
     Inr \<lparr>columns = fact_columns,
          rows = [bare_row ''delivered'' (day 19730) (day 19732) (Some (- 2)) (Some True)]\<rparr> \<and>
   on_time (bare_row ''delivered'' (day 19730) (day 19732) (Some (- 2)) (Some True)) \<noteq> None \<and>
   delay_days (bare_row ''delivered'' (day 19730) (day 19732) (Some (- 2)) (Some True)) \<noteq> None"
proof -
  let ?r = "bare_row ''delivered'' (day 19730) (day 19732) (Some (- 2)) (Some True)"
  let ?df = "\<lparr>columns = fact_columns, rows = [?r]\<rparr>"
  have b: "build_fact_orders (raw_of (one_order ''delivered'' (day 19730) (day 19732)) []) = Inr ?df"
    by code_simp
  have m: "?r \<in> set (rows ?df)" by simp
  have s: "order_status ?r = Some ''delivered''" by (simp add: bare_row_def)
  have d: "order_delivered_customer_date ?r = Moment (19730 * ns_per_day) \<and>
           order_estimated_delivery_date ?r = Moment (19732 * ns_per_day)"
    by (simp add: bare_row_def day_def)
  from delay_and_on_time_by_status [OF b m] s d have "on_time ?r \<noteq> None \<and> delay_days ?r \<noteq> None"
    by blast
  with b show ?thesis by blast
qed

text \<open>
  C2 as stated fails: a delivered order whose delivered date is missing has a row of
  status "delivered" with \<open>delay_days\<close> missing.
\<close>

theorem delivered_without_delay_counterexample:
  "build_fact_orders (raw_of (one_order ''delivered'' NaT (day 19732)) []) =
     Inr \<lparr>columns = fact_columns,
          rows = [bare_row ''delivered'' NaT (day 19732) None (Some False)]\<rparr>"
  by code_simp

text \<open>
  C3, as the code has it. In every row of the fact table, \<open>on_time\<close> is
  \<open>delay_days \<le> 0\<close> whenever \<open>delay_days\<close> is present; when \<open>delay_days\<close> is missing,
  \<open>on_time\<close> is False for a delivered row and missing for any other row.
\<close>

theorem on_time_from_delay:
  assumes "build_fact_orders raw_dir = Inr df" and "r \<in> set (rows df)"
  shows "(\<forall>d. delay_days r = Some d \<longrightarrow> on_time r = Some (d \<le> 0)) \<and>
         (delay_days r = None \<longrightarrow>
            on_time r = (if order_status r = Some ''delivered'' then Some False else None))"
proof -
  from assms obtain data r0 where r: "r = enrich data r0" by (rule build_rows)
  show ?thesis
    unfolding r
    by (auto simp: enrich_delay_days enrich_on_time split: if_splits)
qed

theorem on_time_from_delay_witness:
  "build_fact_orders (raw_of (one_order ''delivered'' (day 19735) (day 19732)) []) =
     Inr \<lparr>columns = fact_columns,
          rows = [bare_row ''delivered'' (day 19735) (day 19732) (Some 3) (Some False)]\<rparr> \<and>
   on_time (bare_row ''delivered'' (day 19735) (day 19732) (Some 3) (Some False)) =
     Some ((3::int) \<le> 0)"
proof -
  let ?r = "bare_row ''delivered'' (day 19735) (day 19732) (Some 3) (Some False)"
  let ?df = "\<lparr>columns = fact_columns, rows = [?r]\<rparr>"
  have b: "build_fact_orders (raw_of (one_order ''delivered'' (day 19735) (day 19732)) []) = Inr ?df"
    by code_simp
  have m: "?r \<in> set (rows ?df)" by simp
  have d: "delay_days ?r = Some 3" by (simp add: bare_row_def)
  from on_time_from_delay [OF b m] d have "on_time ?r = Some ((3::int) \<le> 0)"
    by blast
  with b show ?thesis by blast
qed

text \<open>
  C3 as stated fails: a delivered order whose estimated date does not parse has
  \<open>delay_days\<close> missing and \<open>on_time\<close> False, not missing.
\<close>

theorem unparsed_date_on_time_counterexample:
  "build_fact_orders (raw_of (one_order ''delivered'' (day 19730) (Garbled ''n/a'')) []) =
     Inr \<lparr>columns = fact_columns,
          rows = [bare_row ''delivered'' (day 19730) NaT None (Some False)]\<rparr>"
  by code_simp

section \<open>Loading and caching\<close>

text \<open>
  C9. When at least one of the seven required CSV files is absent from the raw
  directory, \<open>build_fact_orders\<close> returns no table: it fails with the FileNotFoundError
  of one of the required files, and \<open>get_fact_orders\<close> passes that error to its caller
  and leaves the file system as it was, unless it answers from the cache artifact.
\<close>

theorem missing_source_file_fails:
  assumes "orders_csv d = None \<or> customers_csv d = None \<or> order_items_csv d = None \<or>
           order_payments_csv d = None \<or> products_csv d = None \<or>
           translation_csv d = None \<or> geolocation_csv d = None"
  shows "\<exists>f \<in> set REQUIRED_CSVS.
           build_fact_orders d = Inl (FileNotFoundError f) \<and>
           (\<forall>fs raw_dir processed_dir use_cache_file.
              raw fs raw_dir = d \<and>
              \<not> (use_cache_file \<and> processed_dir @ ''/fact_orders.parquet'' \<in> dom (parquet fs)) \<longrightarrow>
              get_fact_orders raw_dir processed_dir use_cache_file fs =
                (Inl (FileNotFoundError f), fs))"
proof -
  from assms have "\<exists>f \<in> set REQUIRED_CSVS. build_fact_orders d = Inl (FileNotFoundError f)"
    by (auto simp: build_fact_orders_def load_required_from_raw_def load_csv_from_raw_def
        bind_err_def REQUIRED_CSVS_def split: option.splits)
  then obtain f where f: "f \<in> set REQUIRED_CSVS" "build_fact_orders d = Inl (FileNotFoundError f)"
    by blast
  then have "get_fact_orders raw_dir processed_dir use_cache_file fs = (Inl (FileNotFoundError f), fs)"
    if "raw fs raw_dir = d"
      "\<not> (use_cache_file \<and> processed_dir @ ''/fact_orders.parquet'' \<in> dom (parquet fs))"
    for fs raw_dir processed_dir use_cache_file
    using that by (auto simp: get_fact_orders_def Let_def)
  with f show ?thesis by blast
qed

theorem missing_source_file_fails_witness:
  "geolocation_csv ((raw_of [] [])\<lparr>geolocation_csv := None\<rparr>) = None \<and>
   build_fact_orders ((raw_of [] [])\<lparr>geolocation_csv := None\<rparr>) =
     Inl (FileNotFoundError ''olist_geolocation_dataset.csv'')"
proof -
  let ?d = "(raw_of [] [])\<lparr>geolocation_csv := None\<rparr>"
  have h: "geolocation_csv ?d = None" by simp
  then have "orders_csv ?d = None \<or> customers_csv ?d = None \<or> order_items_csv ?d = None \<or>
           order_payments_csv ?d = None \<or> products_csv ?d = None \<or>
           translation_csv ?d = None \<or> geolocation_csv ?d = None" by blast
  from missing_source_file_fails [OF this]
  obtain f where "build_fact_orders ?d = Inl (FileNotFoundError f)" by blast
  moreover have "build_fact_orders ?d = Inl (FileNotFoundError ''olist_geolocation_dataset.csv'')"
    by code_simp
  ultimately show ?thesis using h by blast
qed

text \<open>
  C7. With the cache flag enabled, \<open>get_fact_orders\<close> returns the table stored at
  \<open>processed_dir/fact_orders.parquet\<close> unchanged when that file exists, without reading
  the raw directory; otherwise it builds the table from the raw directory, stores it
  at that path and returns it (a failure of the build is passed on and nothing is
  stored). After a call that returned a table, a further call returns the same table
  whatever the raw directory holds by then.
\<close>

theorem cache_or_build:
  "get_fact_orders raw_dir processed_dir True fs =
     (case parquet fs (processed_dir @ ''/fact_orders.parquet'') of
        Some t \<Rightarrow> (Inr t, fs)
      | None \<Rightarrow>
          (case build_fact_orders (raw fs raw_dir) of
             Inl e \<Rightarrow> (Inl e, fs)
           | Inr df \<Rightarrow>
               (Inr df, fs\<lparr>dirs := insert processed_dir (dirs fs),
                            parquet := (parquet fs)(processed_dir @ ''/fact_orders.parquet'' \<mapsto> df)\<rparr>))) \<and>
   (\<forall>df fs'. get_fact_orders raw_dir processed_dir True fs = (Inr df, fs') \<longrightarrow>
      (\<forall>files. get_fact_orders raw_dir processed_dir True (fs'\<lparr>raw := files\<rparr>) =
                 (Inr df, fs'\<lparr>raw := files\<rparr>)))"
  by (auto simp: get_fact_orders_def Let_def dom_def split: option.splits sum.splits)


theorem cache_or_build_witness:
  "get_fact_orders ''raw'' ''processed'' True fresh_fs =
     (Inr \<lparr>columns = fact_columns,
           rows = [bare_row ''delivered'' (day 19730) (day 19732) (Some (- 2)) (Some True)]\<rparr>,
      fresh_fs\<lparr>dirs := {''processed''},
               parquet := [''processed/fact_orders.parquet'' \<mapsto>
                 \<lparr>columns = fact_columns,
                  rows = [bare_row ''delivered'' (day 19730) (day 19732) (Some (- 2)) (Some True)]\<rparr>]\<rparr>) \<and>
   get_fact_orders ''raw'' ''processed'' True
       (fresh_fs\<lparr>dirs := {''processed''},
                parquet := [''processed/fact_orders.parquet'' \<mapsto>
                  \<lparr>columns = fact_columns,
                   rows = [bare_row ''delivered'' (day 19730) (day 19732) (Some (- 2)) (Some True)]\<rparr>],
                raw := (\<lambda>_. raw_of [] [])\<rparr>) =
     (Inr \<lparr>columns = fact_columns,
           rows = [bare_row ''delivered'' (day 19730) (day 19732) (Some (- 2)) (Some True)]\<rparr>,
      fresh_fs\<lparr>dirs := {''processed''},
               parquet := [''processed/fact_orders.parquet'' \<mapsto>
                 \<lparr>columns = fact_columns,
                  rows = [bare_row ''delivered'' (day 19730) (day 19732) (Some (- 2)) (Some True)]\<rparr>],
               raw := (\<lambda>_. raw_of [] [])\<rparr>)"
proof -
  let ?df = "\<lparr>columns = fact_columns,
              rows = [bare_row ''delivered'' (day 19730) (day 19732) (Some (- 2)) (Some True)]\<rparr>"
  let ?fs = "fresh_fs\<lparr>dirs := {''processed''},
               parquet := [''processed/fact_orders.parquet'' \<mapsto> ?df]\<rparr>"
  have b: "build_fact_orders (raw_of (one_order ''delivered'' (day 19730) (day 19732)) []) = Inr ?df"
    by code_simp
  have first: "get_fact_orders ''raw'' ''processed'' True fresh_fs = (Inr ?df, ?fs)"
    using cache_or_build [of "''raw''" "''processed''" fresh_fs] b
    by (simp add: fresh_fs_def)
  from cache_or_build [of "''raw''" "''processed''" fresh_fs] first
  have "get_fact_orders ''raw'' ''processed'' True (?fs\<lparr>raw := (\<lambda>_. raw_of [] [])\<rparr>) =
          (Inr ?df, ?fs\<lparr>raw := (\<lambda>_. raw_of [] [])\<rparr>)"
    by blast
  with first show ?thesis by simp
qed

section \<open>Summary statistics\<close>

lemma dropna_count_True:
  "length (filter (\<lambda>b. b = True) (dropna (map on_time rs))) =
     length (filter (\<lambda>r. on_time r = Some True) rs)"
proof (induction rs)
  case Nil
  show ?case by simp
next
  case (Cons r rs)
  then show ?case by (cases "on_time r") simp_all
qed

lemma delivered_stats_result:
  assumes "delivered_stats d delivered = Inr (cnt, rate, avg)"
  shows "cnt = length (filter (\<lambda>r. on_time r = Some True) delivered) \<and>
         rate = (if delivered = [] then 0 else of_nat cnt / of_nat (length delivered)) \<and>
         avg = (if dropna (map delay_days delivered) = [] then 0
                else of_int (sum_list (dropna (map delay_days delivered))) /
                     of_nat (length (dropna (map delay_days delivered))))"
proof -
  have c: "length (filter (\<lambda>b. b) (dropna (map on_time delivered))) =
           length (filter (\<lambda>r. on_time r = Some True) delivered)"
    using dropna_count_True [of delivered] by simp
  from assms show ?thesis
    by (auto simp: delivered_stats_def Let_def bind_err_def py_div_def c
        split: if_splits sum.splits)
qed

lemma delivered_stats_no_zero_division: "delivered_stats d delivered \<noteq> Inl ZeroDivisionError"
  by (auto simp: delivered_stats_def Let_def bind_err_def py_div_def require_def
      split: if_splits sum.splits)

text \<open>
  C4, as the code has it. \<open>compute_kpis\<close> counts as on-time the delivered rows whose
  \<open>on_time\<close> is True, and divides that count by the number of all delivered rows: a
  delivered row with \<open>on_time\<close> missing is left out of the count and stays in the
  denominator. On a missing or empty input the result is the defaults, and with no
  delivered row, or no delivered row with a delay, the rate and the mean delay are 0.
  The division is only reached with a positive denominator, so ZeroDivisionError is
  never raised. With the three columns it reads present, the function returns.
\<close>

theorem compute_kpis_rates:
  "compute_kpis df \<noteq> Inl ZeroDivisionError \<and>
   (df = None \<or> frame_empty (the df) \<longrightarrow> compute_kpis df = Inr defaults) \<and>
   (\<forall>d k. df = Some d \<and> \<not> frame_empty d \<and> compute_kpis df = Inr k \<longrightarrow>
      total_orders k = length (rows d) \<and>
      delivered_orders k = length (filter delivered_mask (rows d)) \<and>
      on_time_count k = length (filter (\<lambda>r. on_time r = Some True) (filter delivered_mask (rows d))) \<and>
      on_time_rate k =
        (if delivered_orders k = 0 then 0
         else of_nat (on_time_count k) / of_nat (delivered_orders k)) \<and>
      0 \<le> on_time_rate k \<and> on_time_rate k \<le> 1 \<and>
      (dropna (map delay_days (filter delivered_mask (rows d))) = [] \<longrightarrow> avg_delay_days k = 0)) \<and>
   (\<forall>d. df = Some d \<and> ''order_status'' \<in> set (columns d) \<and> ''on_time'' \<in> set (columns d) \<and>
        ''delay_days'' \<in> set (columns d) \<longrightarrow> (\<exists>k. compute_kpis df = Inr k))"
proof (intro conjI allI impI)
  show "compute_kpis df \<noteq> Inl ZeroDivisionError"
    using delivered_stats_no_zero_division
    by (auto simp: compute_kpis_def bind_err_def require_def Let_def
        split: option.splits sum.splits if_splits prod.splits)
next
  assume "df = None \<or> frame_empty (the df)"
  then show "compute_kpis df = Inr defaults"
    by (auto simp: compute_kpis_def split: option.splits)
next
  fix d k
  assume a: "df = Some d \<and> \<not> frame_empty d \<and> compute_kpis df = Inr k"
  let ?dl = "filter delivered_mask (rows d)"
  from a obtain cnt rate avg where st: "delivered_stats d ?dl = Inr (cnt, rate, avg)"
    and k: "k = \<lparr>total_orders = length (rows d), delivered_orders = length ?dl,
                 on_time_count = cnt, on_time_rate = rate, avg_delay_days = avg,
                 total_payment_value = column_total ''payment_value_sum'' payment_value_sum d,
                 total_freight_value = column_total ''freight_value_sum'' freight_value_sum d\<rparr>"
    by (auto simp: compute_kpis_def bind_err_def Let_def split: sum.splits if_splits prod.splits)
  note r = delivered_stats_result [OF st]
  have le: "cnt \<le> length ?dl" using r length_filter_le [of "\<lambda>r. on_time r = Some True" ?dl] by simp
  show "total_orders k = length (rows d)" using k by simp
  show "delivered_orders k = length ?dl" using k by simp
  show "on_time_count k = length (filter (\<lambda>r. on_time r = Some True) ?dl)" using k r by simp
  show "on_time_rate k =
        (if delivered_orders k = 0 then 0
         else of_nat (on_time_count k) / of_nat (delivered_orders k))" using k r by simp
  show "0 \<le> on_time_rate k" using k r by simp
  show "on_time_rate k \<le> 1" using k r le by (simp add: divide_le_eq)
  show "avg_delay_days k = 0" if "dropna (map delay_days ?dl) = []" using k r that by simp
next
  fix d
  assume "df = Some d \<and> ''order_status'' \<in> set (columns d) \<and> ''on_time'' \<in> set (columns d) \<and>
        ''delay_days'' \<in> set (columns d)"
  then show "\<exists>k. compute_kpis df = Inr k"
    by (auto simp: compute_kpis_def bind_err_def require_def Let_def delivered_stats_def py_div_def
        split: option.splits sum.splits if_splits prod.splits)
qed

theorem compute_kpis_rates_witness:
  "compute_kpis None = Inr defaults \<and>
   \<not> frame_empty two_delivered \<and>
   compute_kpis (Some two_delivered) =
     Inr \<lparr>total_orders = 2, delivered_orders = 2, on_time_count = 1, on_time_rate = 1 / 2,
          avg_delay_days = - 2, total_payment_value = 0, total_freight_value = 0\<rparr> \<and>
   length (filter delivered_mask (rows two_delivered)) = 2 \<and>
   length (filter (\<lambda>r. on_time r = Some True) (filter delivered_mask (rows two_delivered))) = 1"
proof -
  let ?k = "\<lparr>total_orders = 2, delivered_orders = 2, on_time_count = 1, on_time_rate = 1 / 2,
          avg_delay_days = - 2, total_payment_value = 0, total_freight_value = 0\<rparr>"
  have d: "compute_kpis None = Inr defaults"
    using compute_kpis_rates [of None] by blast
  have n: "\<not> frame_empty two_delivered" by code_simp
  have k: "compute_kpis (Some two_delivered) = Inr ?k" by code_simp
  from compute_kpis_rates [of "Some two_delivered"] n k
  have "delivered_orders ?k = length (filter delivered_mask (rows two_delivered)) \<and>
        on_time_count ?k =
          length (filter (\<lambda>r. on_time r = Some True) (filter delivered_mask (rows two_delivered)))"
    by blast
  then have "length (filter delivered_mask (rows two_delivered)) = 2 \<and>
        length (filter (\<lambda>r. on_time r = Some True) (filter delivered_mask (rows two_delivered))) = 1"
    by simp
  with d n k show ?thesis by blast
qed

text \<open>
  C4 as stated fails: with two delivered rows, one on time and one with \<open>on_time\<close>
  missing, the rate is 1/2; with the missing value left out of the denominator it
  would be 1.
\<close>

theorem denominator_counterexample:
  "compute_kpis (Some two_delivered) =
     Inr \<lparr>total_orders = 2, delivered_orders = 2, on_time_count = 1, on_time_rate = 1 / 2,
          avg_delay_days = - 2, total_payment_value = 0, total_freight_value = 0\<rparr> \<and>
   rate_excluding_nulls (rows two_delivered) = 1"
  by code_simp

section \<open>Geographic rollup\<close>

lemma list_ex_geo_cols:
  "list_ex (\<lambda>col. col \<notin> set cs) geo_cols \<longleftrightarrow> \<not> set geo_cols \<subseteq> set cs"
  by (auto simp: list_ex_iff)

text \<open>
  C6, as the code has it. For an input that is missing or empty, or that has the three
  geo columns and no row with both coordinates present, \<open>group_geo\<close> returns a frame
  with no row and the eight columns \<open>customer_state\<close>, \<open>mean_lat\<close>, \<open>mean_lng\<close>,
  \<open>order_count\<close>, \<open>delivered_count\<close>, \<open>on_time_count\<close>, \<open>on_time_rate\<close>,
  \<open>avg_delay_days\<close>. For a non-empty input that lacks one of the three geo columns it
  returns a frame with no row and the four columns \<open>customer_state\<close>, \<open>mean_lat\<close>,
  \<open>mean_lng\<close>, \<open>order_count\<close>. It raises in none of these cases.
\<close>

theorem group_geo_empty_shapes:
  "(df = None \<or> frame_empty (the df) \<longrightarrow>
      group_geo df = Inr \<lparr>columns = empty_geo_columns, rows = []\<rparr>) \<and>
   (\<forall>d. df = Some d \<and> \<not> frame_empty d \<and> set geo_cols \<subseteq> set (columns d) \<and>
        (\<forall>r \<in> set (rows d). mean_lat r = None \<or> mean_lng r = None) \<longrightarrow>
      group_geo df = Inr \<lparr>columns = empty_geo_columns, rows = []\<rparr>) \<and>
   (\<forall>d. df = Some d \<and> \<not> frame_empty d \<and> \<not> set geo_cols \<subseteq> set (columns d) \<longrightarrow>
      group_geo df =
        Inr \<lparr>columns = [''customer_state'', ''mean_lat'', ''mean_lng'', ''order_count''],
             rows = []\<rparr>)"
proof (intro conjI allI impI)
  assume "df = None \<or> frame_empty (the df)"
  then show "group_geo df = Inr \<lparr>columns = empty_geo_columns, rows = []\<rparr>"
    by (auto simp: group_geo_def split: option.splits)
next
  fix d
  assume a: "df = Some d \<and> \<not> frame_empty d \<and> set geo_cols \<subseteq> set (columns d) \<and>
        (\<forall>r \<in> set (rows d). mean_lat r = None \<or> mean_lng r = None)"
  then have "filter (\<lambda>r. mean_lat r \<noteq> None \<and> mean_lng r \<noteq> None) (rows d) = []"
    by (auto simp: filter_empty_conv)
  with a show "group_geo df = Inr \<lparr>columns = empty_geo_columns, rows = []\<rparr>"
    by (simp add: group_geo_def list_ex_geo_cols Let_def)
next
  fix d
  assume "df = Some d \<and> \<not> frame_empty d \<and> \<not> set geo_cols \<subseteq> set (columns d)"
  then show "group_geo df =
        Inr \<lparr>columns = [''customer_state'', ''mean_lat'', ''mean_lng'', ''order_count''],
             rows = []\<rparr>"
    by (simp add: group_geo_def list_ex_geo_cols) (simp add: geo_cols_def)
qed

theorem group_geo_empty_shapes_witness:
  "group_geo None = Inr \<lparr>columns = empty_geo_columns, rows = []\<rparr> \<and>
   (\<not> frame_empty two_delivered \<and> set geo_cols \<subseteq> set (columns two_delivered) \<and>
    map mean_lat (rows two_delivered) = [None, None]) \<and>
   group_geo (Some two_delivered) = Inr \<lparr>columns = empty_geo_columns, rows = []\<rparr> \<and>
   (\<not> frame_empty no_coordinates \<and> \<not> set geo_cols \<subseteq> set (columns no_coordinates)) \<and>
   group_geo (Some no_coordinates) =
     Inr \<lparr>columns = [''customer_state'', ''mean_lat'', ''mean_lng'', ''order_count''], rows = []\<rparr>"
proof -
  have a: "group_geo None = Inr \<lparr>columns = empty_geo_columns, rows = []\<rparr>"
    using group_geo_empty_shapes [of None] by blast
  have h2: "\<not> frame_empty two_delivered \<and> set geo_cols \<subseteq> set (columns two_delivered) \<and>
    (\<forall>r \<in> set (rows two_delivered). mean_lat r = None \<or> mean_lng r = None)"
    by (simp add: frame_empty_def two_delivered_def geo_cols_def fact_columns_def bare_row_def)
  have b: "group_geo (Some two_delivered) = Inr \<lparr>columns = empty_geo_columns, rows = []\<rparr>"
    using group_geo_empty_shapes [of "Some two_delivered"] h2 by blast
  have h3: "\<not> frame_empty no_coordinates \<and> \<not> set geo_cols \<subseteq> set (columns no_coordinates)"
    by (simp add: frame_empty_def no_coordinates_def geo_cols_def)
  have c: "group_geo (Some no_coordinates) =
     Inr \<lparr>columns = [''customer_state'', ''mean_lat'', ''mean_lng'', ''order_count''], rows = []\<rparr>"
    using group_geo_empty_shapes [of "Some no_coordinates"] h3 by blast
  have m: "map mean_lat (rows two_delivered) = [None, None]"
    by (simp add: two_delivered_def bare_row_def)
  from a h2 b h3 c m show ?thesis by blast
qed

text \<open>
  C6 as stated fails: a frame with one row and no coordinate columns gets four columns
  back, not the eight.
\<close>

theorem missing_geo_column_counterexample:
  "group_geo (Some no_coordinates) =
     Inr \<lparr>columns = [''customer_state'', ''mean_lat'', ''mean_lng'', ''order_count''], rows = []\<rparr> \<and>
   group_geo (Some no_coordinates) \<noteq>
     Inr \<lparr>columns = [''customer_state'', ''mean_lat'', ''mean_lng'', ''order_count'',
                     ''delivered_count'', ''on_time_count'', ''on_time_rate'',
                     ''avg_delay_days''], rows = []\<rparr>"
  by code_simp

section \<open>Filtering\<close>

lemma select_rows_eq:
  "select_rows col keep d =
     (if col \<in> set (columns d) then Inr (d\<lparr>rows := filter keep (rows d)\<rparr>)
      else Inl (KeyError col))"
  by (simp add: select_rows_def require_def bind_err_def)

lemma frame_rows_id: "d\<lparr>rows := rows d\<rparr> = d"
  by simp

lemma isin_filter_Inr:
  "isin_filter col cell allowed d = Inr d' \<longleftrightarrow>
     (active allowed = [] \<or> col \<in> set (columns d)) \<and>
     d' = d\<lparr>rows := filter (\<lambda>r. active allowed = [] \<or> isin (cell r) (active allowed)) (rows d)\<rparr>"
  by (cases allowed) (auto simp: isin_filter_def active_def select_rows_eq)

lemma date_range_filter_Inr:
  "date_range_filter dr d = Inr d' \<longleftrightarrow>
     ((start_of dr = None \<and> end_of dr = None) \<or> ''order_purchase_timestamp'' \<in> set (columns d)) \<and>
     d' = d\<lparr>rows := filter (\<lambda>r.
              (case start_of dr of None \<Rightarrow> True
               | Some s \<Rightarrow> s \<le> fillna_ts Timestamp_min (order_purchase_timestamp r)) \<and>
              (case end_of dr of None \<Rightarrow> True
               | Some e \<Rightarrow> fillna_ts Timestamp_max (order_purchase_timestamp r) \<le> e)) (rows d)\<rparr>"
proof (cases dr)
  case None
  then show ?thesis by (auto simp: date_range_filter_def start_of_def end_of_def)
next
  case (Some p)
  obtain s e where p: "p = (s, e)" by (cases p)
  show ?thesis
    unfolding Some p
    by (cases s; cases e)
       (auto simp: date_range_filter_def start_of_def end_of_def select_rows_eq bind_err_def
             conj_commute)
qed

lemma delivered_only_Inr:
  "(if dl then select_rows ''order_status'' delivered_mask d else Inr d) = Inr d' \<longleftrightarrow>
     (\<not> dl \<or> ''order_status'' \<in> set (columns d)) \<and>
     d' = d\<lparr>rows := filter (\<lambda>r. dl \<longrightarrow> delivered_mask r) (rows d)\<rparr>"
  by (auto simp: select_rows_eq)

lemma bind_err_Inr: "bind_err m f = Inr y \<longleftrightarrow> (\<exists>x. m = Inr x \<and> f x = Inr y)"
  by (cases m) (simp_all add: bind_err_def)


lemma run_filters_chain:
  assumes "\<not> frame_empty d"
  shows "run_filters (Some d) a = Inr out \<longleftrightarrow>
        (\<exists>d1 d2 d3 d4. date_range_filter (arg_date_range a) (parsed d) = Inr d1 \<and>
           isin_filter ''customer_state'' customer_state (arg_states a) d1 = Inr d2 \<and>
           isin_filter ''product_category_mode'' product_category_mode (arg_categories a) d2 = Inr d3 \<and>
           isin_filter ''payment_type_mode'' payment_type_mode (arg_payment_types a) d3 = Inr d4 \<and>
           (if arg_delivered_only a then select_rows ''order_status'' delivered_mask d4 else Inr d4) = Inr out)"
  using assms by (simp add: run_filters_def apply_filters_def parsed_def Let_def bind_err_Inr)

lemma run_filters_rows:
  assumes "\<not> frame_empty d" and "run_filters (Some d) a = Inr out"
  shows "set (reads a) \<subseteq> set (columns d) \<and> columns out = columns d \<and>
         rows out = filter (passes a) (rows (parsed d))"
proof -
  have c: "columns (parsed d) = columns d" by (simp add: parsed_def)
  from assms obtain d1 d2 d3 d4 where
    s1: "date_range_filter (arg_date_range a) (parsed d) = Inr d1" and
    s2: "isin_filter ''customer_state'' customer_state (arg_states a) d1 = Inr d2" and
    s3: "isin_filter ''product_category_mode'' product_category_mode (arg_categories a) d2 = Inr d3" and
    s4: "isin_filter ''payment_type_mode'' payment_type_mode (arg_payment_types a) d3 = Inr d4" and
    s5: "(if arg_delivered_only a then select_rows ''order_status'' delivered_mask d4 else Inr d4) = Inr out"
    unfolding run_filters_chain [OF assms(1)] by blast
  note f1 = s1 [unfolded date_range_filter_Inr]
  note f2 = s2 [unfolded isin_filter_Inr]
  note f3 = s3 [unfolded isin_filter_Inr]
  note f4 = s4 [unfolded isin_filter_Inr]
  note f5 = s5 [unfolded delivered_only_Inr]
  have c1: "columns d1 = columns d" using f1 c by simp
  have c2: "columns d2 = columns d" using f2 c1 by simp
  have c3: "columns d3 = columns d" using f3 c2 by simp
  have c4: "columns d4 = columns d" using f4 c3 by simp
  have c5: "columns out = columns d" using f5 c4 by simp
  have r: "set (reads a) \<subseteq> set (columns d)"
    using f1 f2 f3 f4 f5 c c1 c2 c3 c4 by (auto simp: reads_def split: if_splits)
  have r1: "rows d1 = filter (\<lambda>r.
              (case start_of (arg_date_range a) of None \<Rightarrow> True
               | Some s \<Rightarrow> s \<le> fillna_ts Timestamp_min (order_purchase_timestamp r)) \<and>
              (case end_of (arg_date_range a) of None \<Rightarrow> True
               | Some e \<Rightarrow> fillna_ts Timestamp_max (order_purchase_timestamp r) \<le> e))
              (rows (parsed d))" using f1 by simp
  have r2: "rows d2 = filter (\<lambda>r. active (arg_states a) = [] \<or>
              isin (customer_state r) (active (arg_states a))) (rows d1)" using f2 by simp
  have r3: "rows d3 = filter (\<lambda>r. active (arg_categories a) = [] \<or>
              isin (product_category_mode r) (active (arg_categories a))) (rows d2)" using f3 by simp
  have r4: "rows d4 = filter (\<lambda>r. active (arg_payment_types a) = [] \<or>
              isin (payment_type_mode r) (active (arg_payment_types a))) (rows d3)" using f4 by simp
  have r5: "rows out = filter (\<lambda>r. arg_delivered_only a \<longrightarrow> delivered_mask r) (rows d4)"
    using f5 by simp
  have "rows out = filter (passes a) (rows (parsed d))"
    unfolding r5 r4 r3 r2 r1 filter_filter passes_def
    by (rule filter_cong [OF refl]) blast
  with r c5 show ?thesis by blast
qed

lemma run_filters_succeeds:
  assumes "\<not> frame_empty d" and "set (reads a) \<subseteq> set (columns d)"
  shows "\<exists>out. run_filters (Some d) a = Inr out"
proof -
  have c: "columns (parsed d) = columns d" by (simp add: parsed_def)
  from assms(2) have k:
    "(start_of (arg_date_range a) = None \<and> end_of (arg_date_range a) = None) \<or>
       ''order_purchase_timestamp'' \<in> set (columns d)"
    "active (arg_states a) = [] \<or> ''customer_state'' \<in> set (columns d)"
    "active (arg_categories a) = [] \<or> ''product_category_mode'' \<in> set (columns d)"
    "active (arg_payment_types a) = [] \<or> ''payment_type_mode'' \<in> set (columns d)"
    "\<not> arg_delivered_only a \<or> ''order_status'' \<in> set (columns d)"
    by (auto simp: reads_def split: if_splits)
  from k(1) c obtain d1 where s1: "date_range_filter (arg_date_range a) (parsed d) = Inr d1"
    and c1: "columns d1 = columns d"
    unfolding date_range_filter_Inr by simp
  from k(2) c1 obtain d2 where
    s2: "isin_filter ''customer_state'' customer_state (arg_states a) d1 = Inr d2"
    and c2: "columns d2 = columns d"
    unfolding isin_filter_Inr by simp
  from k(3) c2 obtain d3 where
    s3: "isin_filter ''product_category_mode'' product_category_mode (arg_categories a) d2 = Inr d3"
    and c3: "columns d3 = columns d"
    unfolding isin_filter_Inr by simp
  from k(4) c3 obtain d4 where
    s4: "isin_filter ''payment_type_mode'' payment_type_mode (arg_payment_types a) d3 = Inr d4"
    and c4: "columns d4 = columns d"
    unfolding isin_filter_Inr by simp
  from k(5) c4 obtain out where
    s5: "(if arg_delivered_only a then select_rows ''order_status'' delivered_mask d4 else Inr d4) = Inr out"
    unfolding delivered_only_Inr by simp
  from s1 s2 s3 s4 s5 show ?thesis
    unfolding run_filters_chain [OF assms(1)] by blast
qed

lemma run_filters_empty:
  "df = None \<or> frame_empty (the df) \<Longrightarrow> run_filters df a = Inr empty_frame"
  by (auto simp: run_filters_def apply_filters_def split: option.splits)

lemma passes_mono: "adds_filters a b \<Longrightarrow> passes b r \<Longrightarrow> passes a r"
  unfolding adds_filters_def passes_def
  by (elim conjE disjE) (simp_all split: option.splits)

lemma reads_mono: "adds_filters a b \<Longrightarrow> set (reads a) \<subseteq> set (reads b)"
  unfolding adds_filters_def reads_def
  by (elim conjE disjE) (auto split: if_splits)

lemma filter_length_mono:
  "(\<And>x. Q x \<Longrightarrow> P x) \<Longrightarrow> length (filter Q xs) \<le> length (filter P xs)"
  by (induction xs) auto

lemma inactive_reads: "inactive a \<Longrightarrow> reads a = []"
  by (simp add: inactive_def reads_def)

lemma inactive_passes: "inactive a \<Longrightarrow> passes a r"
  by (simp add: inactive_def passes_def)

lemma run_filters_inactive:
  assumes "inactive a" and "\<not> frame_empty d"
  shows "run_filters (Some d) a = Inr (parsed d)"
proof -
  from run_filters_succeeds [OF assms(2), of a] inactive_reads [OF assms(1)]
  obtain out where out: "run_filters (Some d) a = Inr out" by auto
  from run_filters_rows [OF assms(2) out] inactive_passes [OF assms(1)]
  have "columns out = columns d" "rows out = rows (parsed d)" by simp_all
  moreover have "columns (parsed d) = columns d" by (simp add: parsed_def)
  ultimately have "out = parsed d" by simp
  with out show ?thesis by simp
qed

text \<open>
  C5, as the code has it. Adding active filters to the arguments of \<open>apply_filters\<close>
  never increases the number of rows returned: when the call with the stricter
  arguments returns a frame, so does the call with the others, with at least as many
  rows. For a missing or empty input the call returns a frame without columns and
  without rows, whatever the arguments. With no active filter, however that is spelled
  in the arguments, a non-empty input comes back with its columns and with its rows in
  their order, every field of every row unchanged except \<open>order_purchase_timestamp\<close>:
  an instant in the range of a timestamp is kept, and a text that does not parse, an
  instant out of range or a missing value becomes missing. An input without that column
  comes back as it is.
\<close>

theorem apply_filters_monotone:
  "(adds_filters a b \<and> run_filters df b = Inr out' \<longrightarrow>
      (\<exists>out. run_filters df a = Inr out \<and> length (rows out') \<le> length (rows out))) \<and>
   (df = None \<or> frame_empty (the df) \<longrightarrow>
      run_filters df a = Inr \<lparr>columns = [], rows = []\<rparr>) \<and>
   (\<forall>d. inactive a \<and> df = Some d \<and> \<not> frame_empty d \<and>
        ''order_purchase_timestamp'' \<in> set (columns d) \<longrightarrow>
      run_filters df a =
        Inr \<lparr>columns = columns d,
             rows = map (\<lambda>r. r\<lparr>order_purchase_timestamp :=
                                 (case order_purchase_timestamp r of
                                    Moment t \<Rightarrow>
                                      if Timestamp_min \<le> t \<and> t \<le> Timestamp_max
                                      then Moment t else NaT
                                  | Garbled s \<Rightarrow> NaT
                                  | NaT \<Rightarrow> NaT)\<rparr>) (rows d)\<rparr>) \<and>
   (\<forall>d. inactive a \<and> df = Some d \<and> \<not> frame_empty d \<and>
        ''order_purchase_timestamp'' \<notin> set (columns d) \<longrightarrow>
      run_filters df a = Inr d)"
proof (intro conjI impI allI)
  assume h: "adds_filters a b \<and> run_filters df b = Inr out'"
  show "\<exists>out. run_filters df a = Inr out \<and> length (rows out') \<le> length (rows out)"
  proof (cases "df = None \<or> frame_empty (the df)")
    case True
    from run_filters_empty [OF True, of b] h have "out' = empty_frame" by simp
    with run_filters_empty [OF True, of a] show ?thesis by (simp add: empty_frame_def)
  next
    case False
    then obtain d where d: "df = Some d" "\<not> frame_empty d" by auto
    from h d have b: "set (reads b) \<subseteq> set (columns d)"
      "rows out' = filter (passes b) (rows (parsed d))"
      using run_filters_rows [of d b out'] by auto
    from reads_mono h b(1) have "set (reads a) \<subseteq> set (columns d)" by blast
    from run_filters_succeeds [OF d(2) this] obtain out
      where out: "run_filters (Some d) a = Inr out" by blast
    from run_filters_rows [OF d(2) out]
    have "rows out = filter (passes a) (rows (parsed d))" by blast
    with b(2) have "length (rows out') \<le> length (rows out)"
      using filter_length_mono [of "passes b" "passes a" "rows (parsed d)"] passes_mono h
      by auto
    with out d show ?thesis by auto
  qed
next
  assume "df = None \<or> frame_empty (the df)"
  from run_filters_empty [OF this, of a]
  show "run_filters df a = Inr \<lparr>columns = [], rows = []\<rparr>"
    by (simp add: empty_frame_def)
next
  fix d
  assume a: "inactive a \<and> df = Some d \<and> \<not> frame_empty d \<and>
        ''order_purchase_timestamp'' \<in> set (columns d)"
  have p: "parse_purchase = (\<lambda>r. r\<lparr>order_purchase_timestamp :=
                                 (case order_purchase_timestamp r of
                                    Moment t \<Rightarrow>
                                      if Timestamp_min \<le> t \<and> t \<le> Timestamp_max
                                      then Moment t else NaT
                                  | Garbled s \<Rightarrow> NaT
                                  | NaT \<Rightarrow> NaT)\<rparr>)"
  proof
    fix r
    show "parse_purchase r = r\<lparr>order_purchase_timestamp :=
                                 (case order_purchase_timestamp r of
                                    Moment t \<Rightarrow>
                                      if Timestamp_min \<le> t \<and> t \<le> Timestamp_max
                                      then Moment t else NaT
                                  | Garbled s \<Rightarrow> NaT
                                  | NaT \<Rightarrow> NaT)\<rparr>"
      by (cases "order_purchase_timestamp r") (simp_all add: parse_purchase_def)
  qed
  from a run_filters_inactive [of a d] have "run_filters df a = Inr (parsed d)" by simp
  with a show "run_filters df a =
        Inr \<lparr>columns = columns d,
             rows = map (\<lambda>r. r\<lparr>order_purchase_timestamp :=
                                 (case order_purchase_timestamp r of
                                    Moment t \<Rightarrow>
                                      if Timestamp_min \<le> t \<and> t \<le> Timestamp_max
                                      then Moment t else NaT
                                  | Garbled s \<Rightarrow> NaT
                                  | NaT \<Rightarrow> NaT)\<rparr>) (rows d)\<rparr>"
    by (simp add: parsed_def p)
next
  fix d
  assume a: "inactive a \<and> df = Some d \<and> \<not> frame_empty d \<and>
        ''order_purchase_timestamp'' \<notin> set (columns d)"
  from a run_filters_inactive [of a d] have "run_filters df a = Inr (parsed d)" by simp
  with a show "run_filters df a = Inr d" by (simp add: parsed_def)
qed

theorem apply_filters_monotone_witness:
  "run_filters (Some mixed_orders) (no_filters\<lparr>arg_delivered_only := True\<rparr>) =
     Inr \<lparr>columns = fact_columns,
          rows = [bare_row ''delivered'' (day 19730) (day 19732) (Some (- 2)) (Some True)]\<rparr> \<and>
   run_filters (Some mixed_orders) no_filters = Inr mixed_orders \<and>
   length [bare_row ''delivered'' (day 19730) (day 19732) (Some (- 2)) (Some True)]
     \<le> length (rows mixed_orders) \<and>
   run_filters (Some garbled_purchase) empty_filters =
     Inr \<lparr>columns = fact_columns,
          rows = [(bare_row ''shipped'' NaT (day 19732) None None)
                    \<lparr>order_purchase_timestamp := NaT\<rparr>]\<rparr> \<and>
   run_filters (Some no_coordinates) empty_filters = Inr no_coordinates \<and>
   run_filters None empty_filters = Inr \<lparr>columns = [], rows = []\<rparr>"
proof -
  let ?b = "no_filters\<lparr>arg_delivered_only := True\<rparr>"
  let ?out' = "\<lparr>columns = fact_columns,
          rows = [bare_row ''delivered'' (day 19730) (day 19732) (Some (- 2)) (Some True)]\<rparr>"
  have h1: "adds_filters no_filters ?b"
    by (simp add: adds_filters_def no_filters_def start_of_def end_of_def active_def)
  have h2: "run_filters (Some mixed_orders) ?b = Inr ?out'" by code_simp
  have h3: "run_filters (Some mixed_orders) no_filters = Inr mixed_orders" by code_simp
  from apply_filters_monotone [of no_filters ?b "Some mixed_orders" ?out'] h1 h2
  obtain out where "run_filters (Some mixed_orders) no_filters = Inr out"
    and "length (rows ?out') \<le> length (rows out)" by blast
  with h3 have l: "length (rows ?out') \<le> length (rows mixed_orders)" by simp
  have i: "inactive empty_filters"
    by (simp add: inactive_def empty_filters_def start_of_def end_of_def active_def)
  have g: "\<not> frame_empty garbled_purchase \<and>
           ''order_purchase_timestamp'' \<in> set (columns garbled_purchase)"
    by (simp add: frame_empty_def garbled_purchase_def fact_columns_def)
  from apply_filters_monotone [of empty_filters empty_filters "Some garbled_purchase"] i g
  have "run_filters (Some garbled_purchase) empty_filters =
        Inr \<lparr>columns = columns garbled_purchase,
             rows = map (\<lambda>r. r\<lparr>order_purchase_timestamp :=
                                 (case order_purchase_timestamp r of
                                    Moment t \<Rightarrow>
                                      if Timestamp_min \<le> t \<and> t \<le> Timestamp_max
                                      then Moment t else NaT
                                  | Garbled s \<Rightarrow> NaT
                                  | NaT \<Rightarrow> NaT)\<rparr>) (rows garbled_purchase)\<rparr>"
    by blast
  then have w1: "run_filters (Some garbled_purchase) empty_filters =
     Inr \<lparr>columns = fact_columns,
          rows = [(bare_row ''shipped'' NaT (day 19732) None None)
                    \<lparr>order_purchase_timestamp := NaT\<rparr>]\<rparr>"
    by (simp add: garbled_purchase_def)
  have n: "\<not> frame_empty no_coordinates \<and>
           ''order_purchase_timestamp'' \<notin> set (columns no_coordinates)"
    by (simp add: frame_empty_def no_coordinates_def)
  from apply_filters_monotone [of empty_filters empty_filters "Some no_coordinates"] i n
  have w2: "run_filters (Some no_coordinates) empty_filters = Inr no_coordinates" by blast
  from apply_filters_monotone [of empty_filters empty_filters None]
  have w3: "run_filters None empty_filters = Inr \<lparr>columns = [], rows = []\<rparr>" by blast
  from h2 h3 l w1 w2 w3 show ?thesis by simp
qed

text \<open>
  C5 as stated fails: with no active filter a purchase timestamp that does not parse
  comes back missing, and an input with columns and no rows comes back without
  columns.
\<close>

theorem unfiltered_not_identical_counterexample:
  "apply_filters (Some garbled_purchase) None None None None False =
     Inr \<lparr>columns = fact_columns, rows = [bare_row ''shipped'' NaT (day 19732) None None
                                             \<lparr>order_purchase_timestamp := NaT\<rparr>]\<rparr> \<and>
   apply_filters (Some garbled_purchase) None None None None False \<noteq> Inr garbled_purchase \<and>
   apply_filters (Some \<lparr>columns = fact_columns, rows = []\<rparr>) None None None None False =
     Inr \<lparr>columns = [], rows = []\<rparr>"
  by code_simp

section \<open>One row for each order\<close>


lemma order_id_enrich [simp]: "order_id (enrich data r) = order_id r"
  by (simp add: enrich_def Let_def set_on_time_def row_delay_def delivered_mask_def
      parse_dates_def with_geo_def)

lemma order_id_orders_customers [simp]: "order_id (orders_customers ord c) = o_order_id ord"
  by (simp add: orders_customers_def)




lemma fill_english_fst [simp]: "fst (fill_english x) = fst x"
  by (cases x) (simp add: fill_english_def)


lemma enrich_prefix [simp]:
  "customer_zip_code_prefix (enrich data r) = customer_zip_code_prefix r"
  by (simp add: enrich_def Let_def set_on_time_def row_delay_def delivered_mask_def
      parse_dates_def with_geo_def)














section \<open>The mode of a group\<close>


lemma foldr_max_attained: "ns \<noteq> [] \<Longrightarrow> foldr max ns (0::nat) \<in> set ns"
proof (induction ns)
  case Nil
  then show ?case by simp
next
  case (Cons n ns)
  show ?case
  proof (cases "ns = []")
    case True
    then show ?thesis by (simp add: max_def)
  next
    case False
    with Cons.IH show ?thesis by (auto simp: max_def)
  qed
qed





lemma mode_or_first_None: "mode_or_first xs = None \<longleftrightarrow> dropna xs = []"
proof -
  have "series_mode xs = [] \<longleftrightarrow> dropna xs = []"
  proof
    assume "series_mode xs = []"
    show "dropna xs = []"
    proof (rule ccontr)
      assume "dropna xs \<noteq> []"
      then have "map (count_list (dropna xs)) (remdups (dropna xs)) \<noteq> []" by simp
      from foldr_max_attained [OF this]
      obtain u where "u \<in> set (dropna xs)"
        "count_list (dropna xs) u = foldr max (map (count_list (dropna xs)) (remdups (dropna xs))) 0"
        by auto
      then have "u \<in> set (series_mode xs)" by (simp add: series_mode_def Let_def)
      with \<open>series_mode xs = []\<close> show False by simp
    qed
  next
    assume "dropna xs = []"
    then show "series_mode xs = []" by (simp add: series_mode_def)
  qed
  then show ?thesis by (simp add: mode_or_first_def Let_def)
qed


lemma mode_or_first_Nil [simp]: "mode_or_first [] = None"
  by (simp add: mode_or_first_None)

lemma first_sorted_mode_Nil [simp]: "\<not> first_sorted_mode [] v"
  by (simp add: first_sorted_mode_def)








section \<open>The category of an order\<close>








end
